theory Spec2Isabelle
  imports Complex_Main
begin

section \<open>Aero-Coffe: coordinate codec, fix acquisition and detection aggregation\<close>

text \<open>
  The development embeds \<^verbatim>\<open>take_images.py\<close> and \<^verbatim>\<open>main.py\<close>.
  Python floats are idealised as real numbers with exact arithmetic: \<open>//\<close> is the floor
  of the quotient, \<open>%\<close> the remainder with the sign of the divisor, \<open>int(x)\<close> truncation
  towards zero. A float that is not finite is not a value of the model: \<open>py_float\<close> gives
  \<open>None\<close> where \<open>float\<close> raises or returns \<open>inf\<close> or \<open>nan\<close>. Python's unbounded integers are
  \<open>int\<close>. Exceptions are values of \<open>py_error\<close> on the left of a sum.
\<close>

subsection \<open>Python primitives\<close>

datatype py_error = ValueError | IndexError | ZeroDivisionError | SerialException
  | InferenceError

definition py_floordiv :: "real \<Rightarrow> real \<Rightarrow> real" where
  \<comment> \<open>\<open>x // y\<close> on floats, for a non-zero divisor\<close>
  "py_floordiv x y = of_int \<lfloor>x / y\<rfloor>"

definition py_fmod :: "real \<Rightarrow> real \<Rightarrow> real" where
  \<comment> \<open>\<open>x % y\<close> on floats, for a non-zero divisor\<close>
  "py_fmod x y = x - y * of_int \<lfloor>x / y\<rfloor>"

definition py_trunc :: "real \<Rightarrow> int" where
  \<comment> \<open>\<open>int(x)\<close> on a float: truncation towards zero\<close>
  "py_trunc x = (if 0 \<le> x then \<lfloor>x\<rfloor> else \<lceil>x\<rceil>)"

subsection \<open>EXIF rationals and the DMS encoding\<close>

type_synonym ratio = "int \<times> int"

definition float_of_ratio :: "ratio \<Rightarrow> py_error + real" where
  \<comment> \<open>\<open>float(r)\<close> of an EXIF rational; a zero denominator raises\<close>
  "float_of_ratio r =
     (case r of (n, d) \<Rightarrow> if d = 0 then Inl ZeroDivisionError else Inr (of_int n / of_int d))"

definition to_dms :: "real \<Rightarrow> ratio \<times> ratio \<times> ratio" where
  "to_dms degree0 =
     (let degree = \<bar>degree0\<bar>;
          d = py_trunc degree;
          m = py_trunc ((degree - of_int d) * 60);
          s = ((degree - of_int d) * 60 - of_int m) * 60
      in ((d, 1), (m, 1), (py_trunc (s * 1000), 1000)))"

definition tuple_values :: "ratio \<times> ratio \<times> ratio \<Rightarrow> ratio list" where
  \<comment> \<open>the three-element tag value as the EXIF reader presents it\<close>
  "tuple_values t = (case t of (a, b, c) \<Rightarrow> [a, b, c])"

definition index :: "'a list \<Rightarrow> nat \<Rightarrow> py_error + 'a" where
  \<comment> \<open>\<open>xs[i]\<close> for a non-negative literal index\<close>
  "index xs i = (if i < length xs then Inr (xs ! i) else Inl IndexError)"

definition dms_to_decimal :: "ratio list \<Rightarrow> py_error + real" where
  \<comment> \<open>\<open>float(v[0]) + float(v[1])/60 + float(v[2])/3600\<close>, evaluated left to right\<close>
  "dms_to_decimal vals =
     (case index vals 0 of Inl e \<Rightarrow> Inl e | Inr v0 \<Rightarrow>
      case float_of_ratio v0 of Inl e \<Rightarrow> Inl e | Inr f0 \<Rightarrow>
      case index vals 1 of Inl e \<Rightarrow> Inl e | Inr v1 \<Rightarrow>
      case float_of_ratio v1 of Inl e \<Rightarrow> Inl e | Inr f1 \<Rightarrow>
      case index vals 2 of Inl e \<Rightarrow> Inl e | Inr v2 \<Rightarrow>
      case float_of_ratio v2 of Inl e \<Rightarrow> Inl e | Inr f2 \<Rightarrow>
        Inr (f0 + f1 / 60 + f2 / 3600))"

subsection \<open>Strings and numeric literals\<close>

definition is_space :: "char \<Rightarrow> bool" where
  \<comment> \<open>the ASCII characters that \<open>str.strip()\<close> removes\<close>
  "is_space c = (of_char c \<in> set [9, 10, 11, 12, 13, 28, 29, 30, 31, 32 :: nat])"

definition strip :: "string \<Rightarrow> string" where
  "strip s = rev (dropWhile is_space (rev (dropWhile is_space s)))"

definition startswith :: "string \<Rightarrow> string \<Rightarrow> bool" where
  "startswith s p = (take (length p) s = p)"

fun str_split :: "char \<Rightarrow> string \<Rightarrow> string list" where
  \<comment> \<open>\<open>s.split(sep)\<close> for a one-character separator\<close>
  "str_split sep [] = [[]]"
| "str_split sep (c # cs) =
     (if c = sep then [] # str_split sep cs
      else (case str_split sep cs of [] \<Rightarrow> [[c]] | p # ps \<Rightarrow> (c # p) # ps))"

definition decode_ascii_ignore :: "string \<Rightarrow> string" where
  \<comment> \<open>\<open>bytes.decode('ascii', errors='ignore')\<close>: bytes above 127 are dropped\<close>
  "decode_ascii_ignore bs = filter (\<lambda>c. of_char c < (128 :: nat)) bs"

definition is_c_space :: "char \<Rightarrow> bool" where
  \<comment> \<open>the whitespace that \<open>int()\<close> and \<open>float()\<close> skip around an ASCII literal\<close>
  "is_c_space c = (of_char c \<in> set [9, 10, 11, 12, 13, 32 :: nat])"

definition c_strip :: "string \<Rightarrow> string" where
  "c_strip s = rev (dropWhile is_c_space (rev (dropWhile is_c_space s)))"

definition digit_val :: "char \<Rightarrow> nat option" where
  "digit_val c =
     (let n = of_char c :: nat in if 48 \<le> n \<and> n \<le> 57 then Some (n - 48) else None)"

fun digits_acc :: "nat \<Rightarrow> string \<Rightarrow> nat option" where
  \<comment> \<open>the rest of a digit part: digits, single underscores only between digits\<close>
  "digits_acc n [] = Some n"
| "digits_acc n [c] = (case digit_val c of None \<Rightarrow> None | Some v \<Rightarrow> Some (10 * n + v))"
| "digits_acc n (c # d # ds) =
     (if c = CHR ''_'' then
        (case digit_val d of None \<Rightarrow> None | Some v \<Rightarrow> digits_acc (10 * n + v) ds)
      else (case digit_val c of None \<Rightarrow> None | Some v \<Rightarrow> digits_acc (10 * n + v) (d # ds)))"

definition digitpart :: "string \<Rightarrow> nat option" where
  "digitpart s =
     (case s of [] \<Rightarrow> None
      | c # cs \<Rightarrow> (case digit_val c of None \<Rightarrow> None | Some v \<Rightarrow> digits_acc v cs))"

definition strip_sign :: "string \<Rightarrow> bool \<times> string" where
  "strip_sign s =
     (case s of [] \<Rightarrow> (False, [])
      | c # cs \<Rightarrow> if c = CHR ''-'' then (True, cs)
                 else if c = CHR ''+'' then (False, cs) else (False, s))"

definition signed_digitpart :: "string \<Rightarrow> int option" where
  "signed_digitpart s =
     (case strip_sign s of (neg, body) \<Rightarrow>
        (case digitpart body of None \<Rightarrow> None
         | Some n \<Rightarrow> Some (if neg then - int n else int n)))"

definition count_digits :: "string \<Rightarrow> nat" where
  \<comment> \<open>the number of digits of a digit part, underscores left out\<close>
  "count_digits s = length (filter (\<lambda>c. c \<noteq> CHR ''_'') s)"

definition max_str_digits :: nat where
  \<comment> \<open>the interpreter's default limit on the digits of a string given to \<open>int\<close>\<close>
  "max_str_digits = 4300"

definition py_int :: "string \<Rightarrow> int option" where
  \<comment> \<open>\<open>int(s)\<close> on an ASCII string; \<open>None\<close> stands for ValueError, which a literal of
      more than \<open>max_str_digits\<close> digits raises too\<close>
  "py_int s =
     (let body = c_strip s
      in if max_str_digits < count_digits (snd (strip_sign body)) then None
         else signed_digitpart body)"

definition mantissa :: "string \<Rightarrow> real option" where
  \<comment> \<open>\<open>[digitpart] "." digitpart | digitpart ["."]\<close>\<close>
  "mantissa s =
     (let ip = takeWhile (\<lambda>c. c \<noteq> CHR ''.'') s;
          rest = dropWhile (\<lambda>c. c \<noteq> CHR ''.'') s
      in case rest of
           [] \<Rightarrow> map_option real (digitpart ip)
         | _ # fp \<Rightarrow>
             if ip = [] then map_option (\<lambda>f. real f / 10 ^ count_digits fp) (digitpart fp)
             else (case digitpart ip of None \<Rightarrow> None
                   | Some i \<Rightarrow>
                       if fp = [] then Some (real i)
                       else map_option (\<lambda>f. real i + real f / 10 ^ count_digits fp)
                              (digitpart fp)))"

definition double_overflows :: "real \<Rightarrow> bool" where
  \<comment> \<open>a decimal value at or beyond the midpoint between the largest double,
      \<open>2^1024 - 2^971\<close>, and \<open>2^1024\<close> rounds to infinity\<close>
  "double_overflows v = (2 ^ 1024 - 2 ^ 970 \<le> \<bar>v\<bar>)"

definition py_float :: "string \<Rightarrow> real option" where
  \<comment> \<open>\<open>float(s)\<close> on an ASCII string. \<open>Some v\<close>: the result is a finite double, taken as
      the exact value \<open>v\<close> of the decimal literal. \<open>None\<close>: \<open>float\<close> raises ValueError, or
      its result is not finite, for the literals \<open>inf\<close> and \<open>nan\<close> and for a literal that
      overflows. The only caller computes \<open>int(coord_float // 100)\<close> at once; on a
      non-finite float the quotient is \<open>nan\<close> and \<open>int\<close> raises ValueError, so both
      cases of \<open>None\<close> end in the same exception there.\<close>
  "py_float s =
     (case strip_sign (c_strip s) of (neg, body) \<Rightarrow>
        (let is_e = (\<lambda>c. c = CHR ''e'' \<or> c = CHR ''E'');
             m = takeWhile (\<lambda>c. \<not> is_e c) body;
             rest = dropWhile (\<lambda>c. \<not> is_e c) body;
             finite = (\<lambda>v :: real. if double_overflows v then None
                                     else Some (if neg then - v else v))
         in case mantissa m of None \<Rightarrow> None
            | Some v \<Rightarrow>
                (case rest of [] \<Rightarrow> finite v
                 | _ # ex \<Rightarrow>
                     (case signed_digitpart ex of None \<Rightarrow> None
                      | Some k \<Rightarrow>
                          finite (if 0 \<le> k then v * 10 ^ nat k else v / 10 ^ nat (- k))))))"

subsection \<open>NMEA coordinates (\<^verbatim>\<open>take_images.py\<close>)\<close>

definition parse_nmea_coordinate :: "string \<Rightarrow> string \<Rightarrow> py_error + real option" where
  \<comment> \<open>\<open>Inr None\<close> is the returned \<open>None\<close>; \<open>Inl ValueError\<close> is raised by \<open>float\<close>, or by
      \<open>int\<close> on the \<open>nan\<close> that \<open>//\<close> gives for a float that is not finite\<close>
  "parse_nmea_coordinate coord_str direction =
     (if coord_str = [] then Inr None
      else case py_float coord_str of None \<Rightarrow> Inl ValueError
        | Some coord_float \<Rightarrow>
            (let (degrees, minutes) =
                   (if length (hd (str_split CHR ''.'' coord_str)) = 4
                    then (py_trunc (py_floordiv coord_float 100), py_fmod coord_float 100)
                    else (py_trunc (py_floordiv coord_float 100), py_fmod coord_float 100));
                 decimal_degrees = of_int degrees + minutes / 60;
                 decimal_degrees =
                   (if direction \<in> set [''S'', ''W''] then - decimal_degrees
                    else decimal_degrees)
             in Inr (Some decimal_degrees)))"

text \<open>
  The reading of \<open>parse_nmea_coordinate\<close> without the test on the number of digits:
  \<open>degrees = int(value // 100)\<close> and \<open>minutes = value % 100\<close> in every case.
\<close>

definition parse_nmea_no_sniff :: "string \<Rightarrow> string \<Rightarrow> py_error + real option" where
  "parse_nmea_no_sniff coord_str direction =
     (if coord_str = [] then Inr None
      else case py_float coord_str of None \<Rightarrow> Inl ValueError
        | Some coord_float \<Rightarrow>
            (let degrees = py_trunc (py_floordiv coord_float 100);
                 minutes = py_fmod coord_float 100;
                 decimal_degrees = of_int degrees + minutes / 60
             in Inr (Some (if direction = ''S'' \<or> direction = ''W'' then - decimal_degrees
                           else decimal_degrees))))"

subsection \<open>Fix acquisition (\<^verbatim>\<open>read_gps\<close>)\<close>

text \<open>
  The serial device is an input of the model: whether opening the port succeeds, and
  what each successive \<open>readline()\<close> gives, either the bytes of a line or a
  \<open>SerialException\<close>. Once the list is used up the device is silent, and \<open>readline()\<close>
  returns the empty byte string at its one-second timeout.
\<close>

datatype read_event = Line string | ReadError

record serial_device =
  opens :: bool
  feed :: "read_event list"

datatype port_state = NotOpened | Opened | Closed

text \<open>The four return sites of \<open>read_gps\<close>, in the order of the source.\<close>

datatype terminal = Fixed | TimedOut | SerialFailure | UnexpectedFailure

record gps_outcome =
  location :: "(real \<times> real) option"
  port :: port_state
  attempts :: nat
  terminal :: terminal

definition max_attempts :: nat where
  "max_attempts = 50"

definition fix_of_parts :: "string list \<Rightarrow> py_error + (real \<times> real) option" where
  \<comment> \<open>the inner \<open>try\<close> block, entered with at least seven parts; \<open>Inr None\<close> is falling
      through to the end of the loop body, \<open>Inl\<close> an exception the handler does not catch\<close>
  "fix_of_parts parts =
     (let lat_str = parts ! 2; lat_dir = parts ! 3; lon_str = parts ! 4; lon_dir = parts ! 5;
          handler = (\<lambda>e. if e \<in> set [ValueError, IndexError] then Inr None else Inl e)
      in if lat_str \<noteq> [] \<and> lon_str \<noteq> [] \<and> lat_dir \<noteq> [] \<and> lon_dir \<noteq> [] then
           (case parse_nmea_coordinate lat_str lat_dir of
              Inl e \<Rightarrow> handler e
            | Inr lat \<Rightarrow>
                (case parse_nmea_coordinate lon_str lon_dir of
                   Inl e \<Rightarrow> handler e
                 | Inr lon \<Rightarrow>
                     (case (lat, lon) of
                        (Some la, Some lo) \<Rightarrow> Inr (Some (la, lo))
                      | _ \<Rightarrow> Inr None)))
         else Inr None)"

definition poll_line :: "string \<Rightarrow> py_error + (real \<times> real) option" where
  \<comment> \<open>the loop body on one decoded line, up to \<open>attempts += 1\<close>; the fix-quality test
      \<open>int(parts[6]) > 0\<close> stands outside the inner \<open>try\<close>\<close>
  "poll_line line =
     (if startswith line ''$GPGGA'' \<or> startswith line ''$GNGGA'' then
        (let parts = str_split CHR '','' line
         in if 7 \<le> length parts then
              if parts ! 6 \<noteq> [] then
                (case py_int (parts ! 6) of
                   None \<Rightarrow> Inl ValueError
                 | Some quality \<Rightarrow> if 0 < quality then fix_of_parts parts else Inr None)
              else Inr None
            else Inr None)
      else Inr None)"

definition readline :: "read_event list \<Rightarrow> read_event \<times> read_event list" where
  "readline evs = (case evs of [] \<Rightarrow> (Line [], []) | e # rest \<Rightarrow> (e, rest))"

function read_gps_loop :: "nat \<Rightarrow> read_event list \<Rightarrow> gps_outcome" where
  "read_gps_loop n evs =
     (if n < max_attempts then
        (case readline evs of
           (ReadError, rest) \<Rightarrow>
             \<lparr>location = None, port = Opened, attempts = n, terminal = SerialFailure\<rparr>
         | (Line bytes, rest) \<Rightarrow>
             (case poll_line (strip (decode_ascii_ignore bytes)) of
                Inl e \<Rightarrow>
                  \<lparr>location = None, port = Opened, attempts = n,
                   terminal = UnexpectedFailure\<rparr>
              | Inr (Some fix) \<Rightarrow>
                  \<lparr>location = Some fix, port = Closed, attempts = n, terminal = Fixed\<rparr>
              | Inr None \<Rightarrow> read_gps_loop (n + 1) rest))
      else \<lparr>location = None, port = Closed, attempts = n, terminal = TimedOut\<rparr>)"
  by pat_completeness auto
termination
  by (relation "measure (\<lambda>(n, evs). max_attempts - n)") auto

declare read_gps_loop.simps [simp del]

definition read_gps :: "serial_device \<Rightarrow> gps_outcome" where
  "read_gps dev =
     (if opens dev then read_gps_loop 0 (feed dev)
      else \<lparr>location = None, port = NotOpened, attempts = 0, terminal = SerialFailure\<rparr>)"

subsection \<open>Reading GPS tags from an image\<close>

text \<open>
  The tags that the EXIF reader returns for a file: the two coordinate tags carry a list
  of rationals, the two reference tags print as a string. \<open>None\<close> is an absent tag.
\<close>

record exif_tags =
  GPSLatitude :: "ratio list option"
  GPSLongitude :: "ratio list option"
  GPSLatitudeRef :: "string option"
  GPSLongitudeRef :: "string option"

definition tag_str :: "string option \<Rightarrow> string" where
  \<comment> \<open>\<open>str(tags.get(key, ''))\<close>\<close>
  "tag_str t = (case t of None \<Rightarrow> [] | Some r \<Rightarrow> r)"

definition read_gps_from_image :: "exif_tags option \<Rightarrow> (real \<times> real) option" where
  \<comment> \<open>\<^verbatim>\<open>main.py\<close>; the argument is \<open>None\<close> when opening or scanning the file raises.
      Every exception ends in \<open>return None\<close>.\<close>
  "read_gps_from_image file =
     (case file of None \<Rightarrow> None
      | Some tags \<Rightarrow>
          (case GPSLatitude tags of None \<Rightarrow> None
           | Some lat_vals \<Rightarrow>
               (case GPSLongitude tags of None \<Rightarrow> None
                | Some lon_vals \<Rightarrow>
                    (let lat_ref = tag_str (GPSLatitudeRef tags);
                         lon_ref = tag_str (GPSLongitudeRef tags)
                     in case dms_to_decimal lat_vals of Inl e \<Rightarrow> None
                        | Inr lat \<Rightarrow>
                            (case dms_to_decimal lon_vals of Inl e \<Rightarrow> None
                             | Inr lon \<Rightarrow>
                                 Some (if lat_ref = ''S'' then - lat else lat,
                                       if lon_ref = ''W'' then - lon else lon))))))"

definition read_existing_gps_from_image :: "exif_tags option \<Rightarrow> (real \<times> real) option" where
  \<comment> \<open>\<^verbatim>\<open>take_images.py\<close>; the same statements as \<open>read_gps_from_image\<close>\<close>
  "read_existing_gps_from_image file =
     (case file of None \<Rightarrow> None
      | Some tags \<Rightarrow>
          (case GPSLatitude tags of None \<Rightarrow> None
           | Some lat_vals \<Rightarrow>
               (case GPSLongitude tags of None \<Rightarrow> None
                | Some lon_vals \<Rightarrow>
                    (let lat_ref = tag_str (GPSLatitudeRef tags);
                         lon_ref = tag_str (GPSLongitudeRef tags)
                     in case dms_to_decimal lat_vals of Inl e \<Rightarrow> None
                        | Inr lat \<Rightarrow>
                            (case dms_to_decimal lon_vals of Inl e \<Rightarrow> None
                             | Inr lon \<Rightarrow>
                                 Some (if lat_ref = ''S'' then - lat else lat,
                                       if lon_ref = ''W'' then - lon else lon))))))"

subsection \<open>Detection records (\<^verbatim>\<open>process_single_image\<close>)\<close>

text \<open>
  A Python \<open>dict\<close> with string keys is an association list in insertion order, with
  one entry per key.
\<close>

type_synonym counts = "(string \<times> int) list"

definition dict_get :: "counts \<Rightarrow> string \<Rightarrow> int \<Rightarrow> int" where
  \<comment> \<open>\<open>d.get(k, default)\<close>\<close>
  "dict_get d k dflt = (case map_of d k of None \<Rightarrow> dflt | Some v \<Rightarrow> v)"

fun dict_set :: "counts \<Rightarrow> string \<Rightarrow> int \<Rightarrow> counts" where
  \<comment> \<open>\<open>d[k] = v\<close>\<close>
  "dict_set [] k v = [(k, v)]"
| "dict_set ((k', v') # d) k v = (if k' = k then (k, v) # d else (k', v') # dict_set d k v)"

definition dict_values :: "counts \<Rightarrow> int list" where
  "dict_values d = map snd d"

fun str_nat :: "nat \<Rightarrow> string" where
  "str_nat n =
     (if n < 10 then [''0123456789'' ! n]
      else str_nat (n div 10) @ [''0123456789'' ! (n mod 10)])"

declare str_nat.simps [simp del]

definition str_int :: "int \<Rightarrow> string" where
  \<comment> \<open>\<open>str(i)\<close>, as the f-string formats a class id\<close>
  "str_int i = (if i < 0 then CHR ''-'' # str_nat (nat (- i)) else str_nat (nat i))"

text \<open>
  The inference collaborator returns a list of predictions, each with a class id and,
  when the attribute exists, a class name. \<open>Detections.from_inference\<close> keeps one
  detection per prediction, in order, so \<open>detections.class_id\<close> is the list of class ids
  and \<open>len(detections)\<close> its length.
\<close>

record prediction =
  class_id :: int
  class_name :: "string option"

record image_file =
  path :: string
  exif :: "exif_tags option"
  decodes :: bool
  inference :: "py_error + prediction list"

record detection_record =
  image_path :: string
  latitude :: real
  longitude :: real
  total_detections :: int
  detection_counts :: counts
  timestamp :: string

fun count_classes :: "prediction list \<Rightarrow> int list \<Rightarrow> counts \<Rightarrow> py_error + counts" where
  \<comment> \<open>the \<open>for class_id in detections.class_id\<close> loop; the name is read from
      \<open>results.predictions[0]\<close> at every turn\<close>
  "count_classes predictions [] tally = Inr tally"
| "count_classes predictions (cid # rest) tally =
     (case predictions of
        [] \<Rightarrow> Inl IndexError
      | first # _ \<Rightarrow>
          (let name = (case class_name first of
                         Some n \<Rightarrow> n
                       | None \<Rightarrow> ''class_'' @ str_int cid)
           in count_classes predictions rest
                (dict_set tally name (dict_get tally name 0 + 1))))"

definition process_single_image :: "image_file \<Rightarrow> string \<Rightarrow> detection_record option" where
  \<comment> \<open>the second argument is \<open>datetime.now().isoformat()\<close>; every exception ends in
      \<open>return None\<close>\<close>
  "process_single_image img now =
     (case read_gps_from_image (exif img) of
        None \<Rightarrow> None
      | Some (lat, lon) \<Rightarrow>
          if \<not> decodes img then None
          else (case inference img of
                  Inl e \<Rightarrow> None
                | Inr predictions \<Rightarrow>
                    (let detections = map class_id predictions
                     in case (if 0 < length detections
                              then count_classes predictions detections []
                              else Inr []) of
                          Inl e \<Rightarrow> None
                        | Inr counted \<Rightarrow>
                            Some \<lparr>image_path = path img, latitude = lat, longitude = lon,
                                  total_detections = int (length detections),
                                  detection_counts = counted, timestamp = now\<rparr>)))"

subsection \<open>Heat data (\<^verbatim>\<open>create_basic_heatmap\<close>, \<^verbatim>\<open>create_class_specific_heatmap\<close>)\<close>

type_synonym heat_point = "real \<times> real \<times> int"

record heatmap =
  center :: "real \<times> real"
  heat_layer :: "heat_point list"

definition center_of :: "detection_record list \<Rightarrow> real \<times> real" where
  \<comment> \<open>\<open>sum(lats) / len(lats)\<close> and \<open>sum(lons) / len(lons)\<close>, on a non-empty list\<close>
  "center_of detection_data =
     (let lats = map latitude detection_data; lons = map longitude detection_data
      in (sum_list lats / of_nat (length lats), sum_list lons / of_nat (length lons)))"

fun basic_heat_data :: "detection_record list \<Rightarrow> heat_point list \<Rightarrow> heat_point list" where
  \<comment> \<open>the loop that appends to \<open>heat_data\<close>\<close>
  "basic_heat_data [] heat_data = heat_data"
| "basic_heat_data (item # rest) heat_data =
     (let intensity = max 1 (total_detections item)
      in basic_heat_data rest (heat_data @ [(latitude item, longitude item, intensity)]))"

definition create_basic_heatmap :: "detection_record list \<Rightarrow> heatmap option" where
  \<comment> \<open>\<open>None\<close> is the early return on an empty collection\<close>
  "create_basic_heatmap detection_data =
     (if detection_data = [] then None
      else Some \<lparr>center = center_of detection_data,
                 heat_layer = basic_heat_data detection_data []\<rparr>)"

fun class_heat_data ::
  "string option \<Rightarrow> detection_record list \<Rightarrow> heat_point list \<Rightarrow> heat_point list" where
  \<comment> \<open>\<open>if target_class:\<close> holds for a non-empty string only\<close>
  "class_heat_data target_class [] heat_data = heat_data"
| "class_heat_data target_class (item # rest) heat_data =
     (let intensity = (case target_class of
                         None \<Rightarrow> total_detections item
                       | Some c \<Rightarrow>
                           if c \<noteq> [] then dict_get (detection_counts item) c 0
                           else total_detections item)
      in class_heat_data target_class rest
           (if 0 < intensity then heat_data @ [(latitude item, longitude item, intensity)]
            else heat_data))"

definition create_class_specific_heatmap ::
  "detection_record list \<Rightarrow> string option \<Rightarrow> heatmap option" where
  "create_class_specific_heatmap detection_data target_class =
     (if detection_data = [] then None
      else Some \<lparr>center = center_of detection_data,
                 heat_layer = class_heat_data target_class detection_data []\<rparr>)"


subsection \<open>Round trip through the DMS encoding\<close>

lemma py_trunc_nonneg: "0 \<le> x \<Longrightarrow> py_trunc x = \<lfloor>x\<rfloor>"
  by (simp add: py_trunc_def)

lemma to_dms_floor:
  fixes x :: real
  defines "a \<equiv> \<bar>x\<bar>"
  defines "f \<equiv> (a - of_int \<lfloor>a\<rfloor>) * 60"
  defines "s \<equiv> (f - of_int \<lfloor>f\<rfloor>) * 60"
  shows "to_dms x = ((\<lfloor>a\<rfloor>, 1), (\<lfloor>f\<rfloor>, 1), (\<lfloor>s * 1000\<rfloor>, 1000))"
proof -
  have a0: "0 \<le> a" by (simp add: a_def)
  have f0: "0 \<le> f" unfolding f_def by (simp add: of_int_floor_le)
  have s0: "0 \<le> s * 1000" unfolding s_def by (simp add: of_int_floor_le)
  have d: "py_trunc a = \<lfloor>a\<rfloor>" using a0 by (rule py_trunc_nonneg)
  have m: "py_trunc f = \<lfloor>f\<rfloor>" using f0 by (rule py_trunc_nonneg)
  have ms: "py_trunc (s * 1000) = \<lfloor>s * 1000\<rfloor>" using s0 by (rule py_trunc_nonneg)
  show ?thesis
    by (simp only: to_dms_def Let_def d [unfolded a_def] m [unfolded f_def a_def]
        ms [unfolded s_def f_def a_def] a_def f_def s_def)
qed

text \<open>
  The seconds field loses less than one millisecond of arc, that is less than
  \<open>1 / 3600000\<close> of a degree.
\<close>

lemma millisecond_bound:
  fixes t u e :: real
  assumes "t \<le> u" and "u < t + 1" and "3600000 * e = t - u"
  shows "\<bar>e\<bar> \<le> 1 / 1000"
  using assms by linarith

text \<open>
  C1. For every decimal coordinate \<open>x\<close>, the tuple written by \<open>to_dms\<close> (seconds as a
  truncated integer number of milliseconds) read back with the
  degrees + minutes/60 + seconds/3600 formula gives a value that recovers \<open>\<bar>x\<bar>\<close>
  within \<open>1e-3\<close> degrees.
\<close>

theorem to_dms_round_trip:
  "\<exists>y. dms_to_decimal (tuple_values (to_dms x)) = Inr y \<and> \<bar>y - \<bar>x\<bar>\<bar> \<le> 1 / 1000"
proof -
  define a :: real where "a = \<bar>x\<bar>"
  define f :: real where "f = (a - of_int \<lfloor>a\<rfloor>) * 60"
  define s :: real where "s = (f - of_int \<lfloor>f\<rfloor>) * 60"
  define y :: real where "y = of_int \<lfloor>a\<rfloor> + of_int \<lfloor>f\<rfloor> / 60 + (of_int \<lfloor>s * 1000\<rfloor> / 1000) / 3600"
  have "to_dms x = ((\<lfloor>a\<rfloor>, 1), (\<lfloor>f\<rfloor>, 1), (\<lfloor>s * 1000\<rfloor>, 1000))"
    unfolding a_def f_def s_def by (rule to_dms_floor)
  then have eq: "dms_to_decimal (tuple_values (to_dms x)) = Inr y"
    by (simp add: dms_to_decimal_def tuple_values_def index_def float_of_ratio_def y_def)
  have a_split: "a = of_int \<lfloor>a\<rfloor> + of_int \<lfloor>f\<rfloor> / 60 + s / 3600"
    unfolding s_def f_def by (simp add: field_simps)
  have lo: "of_int \<lfloor>s * 1000\<rfloor> \<le> s * 1000" by (rule of_int_floor_le)
  have hi: "s * 1000 < of_int \<lfloor>s * 1000\<rfloor> + 1" by linarith
  have "y - a = (of_int \<lfloor>s * 1000\<rfloor> - s * 1000) / 3600000"
    unfolding y_def by (subst (2) a_split) (simp add: field_simps)
  then have "3600000 * (y - a) = of_int \<lfloor>s * 1000\<rfloor> - s * 1000"
    by simp
  with lo hi have "\<bar>y - a\<bar> \<le> 1 / 1000"
    by (rule millisecond_bound)
  with eq show ?thesis unfolding a_def by blast
qed

subsection \<open>The NMEA parser\<close>

lemmas literal_defs = py_float_def double_overflows_def py_int_def max_str_digits_def
  signed_digitpart_def c_strip_def is_c_space_def
  strip_sign_def mantissa_def digitpart_def digit_val_def count_digits_def

lemma py_trunc_of_int: "py_trunc (of_int k) = k"
  by (simp add: py_trunc_def)

lemma parse_nmea_coordinate_eq:
  "parse_nmea_coordinate s d =
     (if s = [] then Inr None
      else case py_float s of None \<Rightarrow> Inl ValueError
        | Some v \<Rightarrow>
            Inr (Some ((if d = ''S'' \<or> d = ''W'' then - 1 else 1)
                       * (of_int \<lfloor>v / 100\<rfloor> + (v - 100 * of_int \<lfloor>v / 100\<rfloor>) / 60))))"
  by (simp add: parse_nmea_coordinate_def py_floordiv_def py_fmod_def py_trunc_of_int Let_def
      split: option.split)

text \<open>
  C4. \<open>parse_nmea_coordinate("4807.038", 'N')\<close> is 48.1173 and
  \<open>parse_nmea_coordinate("01131.000", 'E')\<close> is 11.5167, each within half a unit of the
  fourth decimal: the NMEA value is decoded as degrees plus minutes/60.
\<close>

theorem parse_nmea_examples:
  "(\<exists>v. parse_nmea_coordinate ''4807.038'' ''N'' = Inr (Some v) \<and> \<bar>v - 481173 / 10000\<bar> \<le> 1 / 20000)
   \<and> (\<exists>v. parse_nmea_coordinate ''01131.000'' ''E'' = Inr (Some v)
          \<and> \<bar>v - 115167 / 10000\<bar> \<le> 1 / 20000)"
proof -
  have lat: "py_float ''4807.038'' = Some (4807038 / 1000)"
    by (simp add: literal_defs)
  have lon: "py_float ''01131.000'' = Some 1131"
    by (simp add: literal_defs)
  have a: "parse_nmea_coordinate ''4807.038'' ''N'' = Inr (Some (481173 / 10000))"
    by (simp add: parse_nmea_coordinate_eq lat)
  have b: "parse_nmea_coordinate ''01131.000'' ''E'' = Inr (Some (691 / 60))"
    by (simp add: parse_nmea_coordinate_eq lon)
  have "parse_nmea_coordinate ''4807.038'' ''N'' = Inr (Some (481173 / 10000))
      \<and> \<bar>481173 / 10000 - 481173 / 10000\<bar> \<le> (1 / 20000 :: real)"
    using a by simp
  then have first: "\<exists>v. parse_nmea_coordinate ''4807.038'' ''N'' = Inr (Some v)
      \<and> \<bar>v - 481173 / 10000\<bar> \<le> 1 / 20000"
    by (rule exI)
  have "parse_nmea_coordinate ''01131.000'' ''E'' = Inr (Some (691 / 60))
      \<and> \<bar>691 / 60 - 115167 / 10000\<bar> \<le> (1 / 20000 :: real)"
    using b by simp
  then have second: "\<exists>v. parse_nmea_coordinate ''01131.000'' ''E'' = Inr (Some v)
      \<and> \<bar>v - 115167 / 10000\<bar> \<le> 1 / 20000"
    by (rule exI)
  from first second show ?thesis by (rule conjI)
qed

text \<open>
  C10. The test on the number of digits before the point has no effect: for every
  coordinate string and direction, \<open>parse_nmea_coordinate\<close> returns what the reading
  with the single formula \<open>degrees = int(value // 100)\<close>, \<open>minutes = value % 100\<close>
  returns; and for the empty string it returns \<open>None\<close>, not a number.
\<close>

theorem sniffing_has_no_effect:
  "parse_nmea_coordinate s d = parse_nmea_no_sniff s d \<and> parse_nmea_coordinate [] d = Inr None"
  by (simp add: parse_nmea_coordinate_def parse_nmea_no_sniff_def Let_def split: option.split)

text \<open>
  C5. For every NMEA coordinate string, direction \<open>S\<close> gives the negation of what \<open>N\<close>
  gives and \<open>W\<close> the negation of what \<open>E\<close> gives, while \<open>N\<close>, \<open>E\<close> and the empty
  direction all give the unsigned value degrees + minutes/60. For every set of EXIF tags,
  latitude reference \<open>S\<close> negates the latitude read with \<open>N\<close>, longitude reference \<open>W\<close>
  negates the longitude read with \<open>E\<close>, and \<open>N\<close>, \<open>E\<close> or an empty reference leave the
  value of the degrees/minutes/seconds formula unchanged.
\<close>

theorem hemisphere_sign:
  "parse_nmea_coordinate s ''S'' = map_sum id (map_option uminus) (parse_nmea_coordinate s ''N'')
   \<and> parse_nmea_coordinate s ''W'' = map_sum id (map_option uminus) (parse_nmea_coordinate s ''E'')
   \<and> parse_nmea_coordinate s ''E'' = parse_nmea_coordinate s ''N''
   \<and> parse_nmea_coordinate s [] = parse_nmea_coordinate s ''N''
   \<and> parse_nmea_coordinate s ''N'' =
       (if s = [] then Inr None
        else case py_float s of None \<Rightarrow> Inl ValueError
          | Some v \<Rightarrow> Inr (Some (of_int (py_trunc (py_floordiv v 100)) + py_fmod v 100 / 60)))
   \<and> read_gps_from_image (Some (t\<lparr>GPSLatitudeRef := Some ''S''\<rparr>)) =
       map_option (\<lambda>(lat, lon). (- lat, lon))
         (read_gps_from_image (Some (t\<lparr>GPSLatitudeRef := Some ''N''\<rparr>)))
   \<and> read_gps_from_image (Some (t\<lparr>GPSLongitudeRef := Some ''W''\<rparr>)) =
       map_option (\<lambda>(lat, lon). (lat, - lon))
         (read_gps_from_image (Some (t\<lparr>GPSLongitudeRef := Some ''E''\<rparr>)))
   \<and> read_gps_from_image (Some (t\<lparr>GPSLatitudeRef := Some []\<rparr>)) =
       read_gps_from_image (Some (t\<lparr>GPSLatitudeRef := Some ''N''\<rparr>))
   \<and> read_gps_from_image (Some (t\<lparr>GPSLongitudeRef := Some []\<rparr>)) =
       read_gps_from_image (Some (t\<lparr>GPSLongitudeRef := Some ''E''\<rparr>))
   \<and> read_gps_from_image
         (Some (t\<lparr>GPSLatitudeRef := Some ''N'', GPSLongitudeRef := Some ''E''\<rparr>)) =
       (case GPSLatitude t of None \<Rightarrow> None
        | Some lat_vals \<Rightarrow>
            (case GPSLongitude t of None \<Rightarrow> None
             | Some lon_vals \<Rightarrow>
                 (case dms_to_decimal lat_vals of Inl e \<Rightarrow> None
                  | Inr lat \<Rightarrow>
                      (case dms_to_decimal lon_vals of Inl e \<Rightarrow> None
                       | Inr lon \<Rightarrow> Some (lat, lon)))))"
proof -
  have nmea: "parse_nmea_coordinate s ''S'' = map_sum id (map_option uminus) (parse_nmea_coordinate s ''N'')"
    "parse_nmea_coordinate s ''W'' = map_sum id (map_option uminus) (parse_nmea_coordinate s ''E'')"
    "parse_nmea_coordinate s ''E'' = parse_nmea_coordinate s ''N''"
    "parse_nmea_coordinate s [] = parse_nmea_coordinate s ''N''"
    by (simp_all add: parse_nmea_coordinate_eq split: option.split)
  have plain: "parse_nmea_coordinate s ''N'' =
       (if s = [] then Inr None
        else case py_float s of None \<Rightarrow> Inl ValueError
          | Some v \<Rightarrow> Inr (Some (of_int (py_trunc (py_floordiv v 100)) + py_fmod v 100 / 60)))"
    by (simp add: parse_nmea_coordinate_def Let_def split: option.split)
  have exif: "read_gps_from_image (Some (t\<lparr>GPSLatitudeRef := Some ''S''\<rparr>)) =
       map_option (\<lambda>(lat, lon). (- lat, lon))
         (read_gps_from_image (Some (t\<lparr>GPSLatitudeRef := Some ''N''\<rparr>)))"
    "read_gps_from_image (Some (t\<lparr>GPSLongitudeRef := Some ''W''\<rparr>)) =
       map_option (\<lambda>(lat, lon). (lat, - lon))
         (read_gps_from_image (Some (t\<lparr>GPSLongitudeRef := Some ''E''\<rparr>)))"
    "read_gps_from_image (Some (t\<lparr>GPSLatitudeRef := Some []\<rparr>)) =
       read_gps_from_image (Some (t\<lparr>GPSLatitudeRef := Some ''N''\<rparr>))"
    "read_gps_from_image (Some (t\<lparr>GPSLongitudeRef := Some []\<rparr>)) =
       read_gps_from_image (Some (t\<lparr>GPSLongitudeRef := Some ''E''\<rparr>))"
    by (simp_all add: read_gps_from_image_def tag_str_def Let_def split: option.split sum.split)
  have exif_plain: "read_gps_from_image
         (Some (t\<lparr>GPSLatitudeRef := Some ''N'', GPSLongitudeRef := Some ''E''\<rparr>)) =
       (case GPSLatitude t of None \<Rightarrow> None
        | Some lat_vals \<Rightarrow>
            (case GPSLongitude t of None \<Rightarrow> None
             | Some lon_vals \<Rightarrow>
                 (case dms_to_decimal lat_vals of Inl e \<Rightarrow> None
                  | Inr lat \<Rightarrow>
                      (case dms_to_decimal lon_vals of Inl e \<Rightarrow> None
                       | Inr lon \<Rightarrow> Some (lat, lon)))))"
    by (simp add: read_gps_from_image_def tag_str_def Let_def split: option.split sum.split)
  from nmea plain exif exif_plain show ?thesis by (intro conjI)
qed

subsection \<open>Coordinate ranges\<close>






text \<open>
  Such triples are what \<open>to_dms\<close> writes: for \<open>\<bar>x\<bar> \<le> b\<close> the degrees are at most \<open>b - 1\<close>, or
  the triple is exactly \<open>b\<close> degrees, 0 minutes, 0 seconds.
\<close>

lemma sixtieth_part:
  fixes a k :: real
  assumes "k \<le> a" and "a < k + 1"
  shows "0 \<le> (a - k) * 60" and "(a - k) * 60 < 60"
proof -
  show "0 \<le> (a - k) * 60" using assms(1) by simp
  show "(a - k) * 60 < 60" using assms(2) by simp
qed

lemma to_dms_well_formed:
  fixes x :: real and b :: int
  assumes "\<bar>x\<bar> \<le> of_int b"
  shows "\<exists>d m s. to_dms x = ((d, 1), (m, 1), (s, 1000))
           \<and> 0 \<le> d \<and> 0 \<le> m \<and> m \<le> 59 \<and> 0 \<le> s \<and> s < 60 * 1000
           \<and> (d \<le> b - 1 \<or> (d = b \<and> m = 0 \<and> s = 0))"
proof -
  define a :: real where "a = \<bar>x\<bar>"
  define f :: real where "f = (a - of_int \<lfloor>a\<rfloor>) * 60"
  define s :: real where "s = (f - of_int \<lfloor>f\<rfloor>) * 60"
  have eq: "to_dms x = ((\<lfloor>a\<rfloor>, 1), (\<lfloor>f\<rfloor>, 1), (\<lfloor>s * 1000\<rfloor>, 1000))"
    unfolding a_def f_def s_def by (rule to_dms_floor)
  have a0: "0 \<le> a" by (simp add: a_def)
  have fa: "of_int \<lfloor>a\<rfloor> \<le> a" "a < of_int \<lfloor>a\<rfloor> + 1"
    by linarith+
  have f0: "0 \<le> f" and f60: "f < 60"
    unfolding f_def by (rule sixtieth_part [OF fa])+
  have ff: "of_int \<lfloor>f\<rfloor> \<le> f" "f < of_int \<lfloor>f\<rfloor> + 1"
    by linarith+
  have s0: "0 \<le> s" and s60: "s < 60"
    unfolding s_def by (rule sixtieth_part [OF ff])+
  have d0: "0 \<le> \<lfloor>a\<rfloor>" using a0 by simp
  have m0: "0 \<le> \<lfloor>f\<rfloor>" using f0 by simp
  have m59: "\<lfloor>f\<rfloor> \<le> 59" using f60 by linarith
  have ms0: "0 \<le> \<lfloor>s * 1000\<rfloor>" using s0 by simp
  have ms: "\<lfloor>s * 1000\<rfloor> < 60 * 1000" using s60 by linarith
  have db: "\<lfloor>a\<rfloor> \<le> b" using assms unfolding a_def [symmetric] by linarith
  have pole: "\<lfloor>a\<rfloor> \<le> b - 1 \<or> (\<lfloor>a\<rfloor> = b \<and> \<lfloor>f\<rfloor> = 0 \<and> \<lfloor>s * 1000\<rfloor> = 0)"
  proof (cases "\<lfloor>a\<rfloor> = b")
    case True
    then have "of_int b \<le> a" by (metis of_int_floor_le)
    with assms have "a = of_int b" unfolding a_def by simp
    then have "f = 0" by (simp add: f_def)
    then have "s = 0" by (simp add: s_def)
    with \<open>f = 0\<close> True show ?thesis by simp
  next
    case False
    with db show ?thesis by simp
  qed
  from eq d0 m0 m59 ms0 ms pole show ?thesis by blast
qed



subsection \<open>Fix acquisition\<close>

text \<open>One turn of the polling loop, by what the loop body does with the line.\<close>

lemma poll_line_empty: "poll_line [] = Inr None"
  by (simp add: poll_line_def startswith_def)

lemma read_gps_loop_silent:
  "n \<le> max_attempts \<Longrightarrow>
   read_gps_loop n [] =
     \<lparr>location = None, port = Closed, attempts = max_attempts, terminal = TimedOut\<rparr>"
proof (induction "max_attempts - n" arbitrary: n)
  case 0
  then have "n = max_attempts" by simp
  then show ?case by (simp add: read_gps_loop.simps)
next
  case (Suc k)
  then have lt: "n < max_attempts" and le: "n + 1 \<le> max_attempts" and k: "k = max_attempts - (n + 1)"
    by simp_all
  have "read_gps_loop n [] = read_gps_loop (n + 1) []"
    using lt
    by (subst read_gps_loop.simps)
      (simp add: readline_def decode_ascii_ignore_def strip_def poll_line_empty)
  also have "\<dots> = \<lparr>location = None, port = Closed, attempts = max_attempts, terminal = TimedOut\<rparr>"
    using Suc.hyps(1) [OF k le] .
  finally show ?case .
qed

lemma read_gps_loop_skip:
  assumes "n < max_attempts" and "poll_line (strip (decode_ascii_ignore bytes)) = Inr None"
  shows "read_gps_loop n (Line bytes # rest) = read_gps_loop (n + 1) rest"
  using assms by (subst read_gps_loop.simps) (simp add: readline_def)

lemma read_gps_loop_fix:
  assumes "n < max_attempts" and "poll_line (strip (decode_ascii_ignore bytes)) = Inr (Some p)"
  shows "read_gps_loop n (Line bytes # rest) =
           \<lparr>location = Some p, port = Closed, attempts = n, terminal = Fixed\<rparr>"
  using assms by (subst read_gps_loop.simps) (simp add: readline_def)

lemma read_gps_loop_raise:
  assumes "n < max_attempts" and "poll_line (strip (decode_ascii_ignore bytes)) = Inl e"
  shows "read_gps_loop n (Line bytes # rest) =
           \<lparr>location = None, port = Opened, attempts = n, terminal = UnexpectedFailure\<rparr>"
  using assms by (subst read_gps_loop.simps) (simp add: readline_def)

lemma read_gps_loop_read_error:
  assumes "n < max_attempts"
  shows "read_gps_loop n (ReadError # rest) =
           \<lparr>location = None, port = Opened, attempts = n, terminal = SerialFailure\<rparr>"
  using assms by (subst read_gps_loop.simps) (simp add: readline_def)

lemmas line_defs = strip_def decode_ascii_ignore_def is_space_def startswith_def

lemma py_int_zero_one: "py_int ''0'' = Some 0" "py_int ''1'' = Some 1"
  by (simp_all add: literal_defs)

lemma poll_line_quality_zero:
  assumes "startswith line ''$GPGGA'' \<or> startswith line ''$GNGGA''"
    and "7 \<le> length (str_split CHR '','' line)"
    and "str_split CHR '','' line ! 6 = ''0''"
  shows "poll_line line = Inr None"
  using assms by (simp add: poll_line_def Let_def py_int_zero_one)

lemma poll_line_quality_one:
  assumes "startswith line ''$GPGGA'' \<or> startswith line ''$GNGGA''"
    and "str_split CHR '','' line = parts" and "7 \<le> length parts"
    and "parts ! 6 = ''1''"
    and "parts ! 2 \<noteq> []" and "parts ! 3 \<noteq> []" and "parts ! 4 \<noteq> []" and "parts ! 5 \<noteq> []"
    and "parse_nmea_coordinate (parts ! 2) (parts ! 3) = Inr (Some lat)"
    and "parse_nmea_coordinate (parts ! 4) (parts ! 5) = Inr (Some lon)"
  shows "poll_line line = Inr (Some (lat, lon))"
  using assms by (simp add: poll_line_def fix_of_parts_def Let_def py_int_zero_one)

lemma parse_nmea_coordinate_numeric:
  assumes "s \<noteq> []" and "py_float s = Some v"
  shows "\<exists>r. parse_nmea_coordinate s d = Inr (Some r)"
  using assms by (simp add: parse_nmea_coordinate_eq)

text \<open>
  C3, amended. On a turn of the polling loop within the attempt bound, for a recognised
  sentence (\<open>$GPGGA\<close> or \<open>$GNGGA\<close>) with at least seven fields: if field 6 is \<open>"0"\<close> the
  line gives no fix and polling goes on with the next line, one attempt later; if field 6
  is \<open>"1"\<close>, fields 2 to 5 are non-empty and the two coordinate values (fields 2 and 4)
  parse as finite numbers, the acquisition returns at this line, once, with the port
  closed and the coordinate that \<open>parse_nmea_coordinate\<close> computes from fields 2 to 5.
\<close>

theorem fix_validation:
  assumes "startswith line ''$GPGGA'' \<or> startswith line ''$GNGGA''"
    and "str_split CHR '','' line = parts" and "7 \<le> length parts"
    and "strip (decode_ascii_ignore bytes) = line" and "n < max_attempts"
  shows "(parts ! 6 = ''0'' \<longrightarrow>
            poll_line line = Inr None
            \<and> read_gps_loop n (Line bytes # rest) = read_gps_loop (n + 1) rest)
       \<and> (parts ! 6 = ''1'' \<and> parts ! 2 \<noteq> [] \<and> parts ! 3 \<noteq> [] \<and> parts ! 4 \<noteq> []
            \<and> parts ! 5 \<noteq> [] \<and> py_float (parts ! 2) = Some a \<and> py_float (parts ! 4) = Some b \<longrightarrow>
            (\<exists>lat lon. parse_nmea_coordinate (parts ! 2) (parts ! 3) = Inr (Some lat)
               \<and> parse_nmea_coordinate (parts ! 4) (parts ! 5) = Inr (Some lon)
               \<and> read_gps_loop n (Line bytes # rest) =
                   \<lparr>location = Some (lat, lon), port = Closed, attempts = n,
                    terminal = Fixed\<rparr>))"
proof (intro conjI impI)
  assume q: "parts ! 6 = ''0''"
  show skip: "poll_line line = Inr None"
    using assms(1-3) q by (intro poll_line_quality_zero) simp_all
  show "read_gps_loop n (Line bytes # rest) = read_gps_loop (n + 1) rest"
    using assms(5) skip assms(4) by (intro read_gps_loop_skip) simp_all
next
  assume h: "parts ! 6 = ''1'' \<and> parts ! 2 \<noteq> [] \<and> parts ! 3 \<noteq> [] \<and> parts ! 4 \<noteq> []
            \<and> parts ! 5 \<noteq> [] \<and> py_float (parts ! 2) = Some a \<and> py_float (parts ! 4) = Some b"
  from h obtain lat where lat: "parse_nmea_coordinate (parts ! 2) (parts ! 3) = Inr (Some lat)"
    using parse_nmea_coordinate_numeric [of "parts ! 2" a "parts ! 3"] by blast
  from h obtain lon where lon: "parse_nmea_coordinate (parts ! 4) (parts ! 5) = Inr (Some lon)"
    using parse_nmea_coordinate_numeric [of "parts ! 4" b "parts ! 5"] by blast
  have "poll_line line = Inr (Some (lat, lon))"
    using assms(1-3) h lat lon by (intro poll_line_quality_one [where parts = parts]) simp_all
  then have "read_gps_loop n (Line bytes # rest) =
      \<lparr>location = Some (lat, lon), port = Closed, attempts = n, terminal = Fixed\<rparr>"
    using assms(4,5) by (intro read_gps_loop_fix) simp_all
  with lat lon show "\<exists>lat lon. parse_nmea_coordinate (parts ! 2) (parts ! 3) = Inr (Some lat)
               \<and> parse_nmea_coordinate (parts ! 4) (parts ! 5) = Inr (Some lon)
               \<and> read_gps_loop n (Line bytes # rest) =
                   \<lparr>location = Some (lat, lon), port = Closed, attempts = n,
                    terminal = Fixed\<rparr>"
    by blast
qed

text \<open>The sentence of the NMEA reference example, as the device sends it.\<close>

lemma float_lat: "py_float ''4807.038'' = Some (4807038 / 1000)"
  by (simp add: literal_defs)

lemma float_lon: "py_float ''01131.000'' = Some 1131"
  by (simp add: literal_defs)

lemma nmea_lat: "parse_nmea_coordinate ''4807.038'' ''N'' = Inr (Some (481173 / 10000))"
  by (simp add: parse_nmea_coordinate_eq float_lat)

lemma nmea_lon: "parse_nmea_coordinate ''01131.000'' ''E'' = Inr (Some (691 / 60))"
  by (simp add: parse_nmea_coordinate_eq float_lon)

theorem fix_validation_witness:
  "read_gps_loop 0
     [Line (''$GNGGA,123519,4807.038,N,01131.000,E,0,00,,,M,,M,,*5C'' @ [CHR 0x0D, CHR 0x0A]),
      Line (''$GPGGA,123519,4807.038,N,01131.000,E,1,08,0.9,545.4,M,46.9,M,,*47''
               @ [CHR 0x0D, CHR 0x0A])] =
   \<lparr>location = Some (481173 / 10000, 691 / 60), port = Closed, attempts = 1, terminal = Fixed\<rparr>"
proof -
  define zero where "zero = ''$GNGGA,123519,4807.038,N,01131.000,E,0,00,,,M,,M,,*5C''"
  define one where "one = ''$GPGGA,123519,4807.038,N,01131.000,E,1,08,0.9,545.4,M,46.9,M,,*47''"
  define pz where "pz = str_split CHR '','' zero"
  define po where "po = str_split CHR '','' one"
  define zb where "zb = zero @ [CHR 0x0D, CHR 0x0A]"
  define ob where "ob = one @ [CHR 0x0D, CHR 0x0A]"
  have z1: "startswith zero ''$GPGGA'' \<or> startswith zero ''$GNGGA''"
    by (simp add: startswith_def zero_def)
  have z3: "7 \<le> length pz" and zq: "pz ! 6 = ''0''"
    by (simp_all add: pz_def zero_def)
  have z4: "strip (decode_ascii_ignore zb) = zero"
    by (simp add: line_defs zb_def zero_def)
  have z5: "0 < max_attempts" by (simp add: max_attempts_def)
  have o1: "startswith one ''$GPGGA'' \<or> startswith one ''$GNGGA''"
    by (simp add: startswith_def one_def)
  have o3: "7 \<le> length po" and o6: "po ! 6 = ''1''" and o2: "po ! 2 = ''4807.038''"
    and o3': "po ! 3 = ''N''" and o4': "po ! 4 = ''01131.000''" and o5': "po ! 5 = ''E''"
    by (simp_all add: po_def one_def)
  have o4: "strip (decode_ascii_ignore ob) = one"
    by (simp add: line_defs ob_def one_def)
  have o5: "0 + 1 < max_attempts" by (simp add: max_attempts_def)
  have oq: "po ! 6 = ''1'' \<and> po ! 2 \<noteq> [] \<and> po ! 3 \<noteq> [] \<and> po ! 4 \<noteq> []
      \<and> po ! 5 \<noteq> [] \<and> py_float (po ! 2) = Some (4807038 / 1000)
      \<and> py_float (po ! 4) = Some 1131"
    unfolding o6 o2 o3' o4' o5' by (simp add: float_lat float_lon)
  have skip: "read_gps_loop 0 (Line zb # [Line ob]) = read_gps_loop (0 + 1) [Line ob]"
    using fix_validation [OF z1 pz_def [symmetric] z3 z4 z5, where rest = "[Line ob]"] zq by blast
  have "\<exists>lat lon. parse_nmea_coordinate (po ! 2) (po ! 3) = Inr (Some lat)
               \<and> parse_nmea_coordinate (po ! 4) (po ! 5) = Inr (Some lon)
               \<and> read_gps_loop (0 + 1) (Line ob # []) =
                   \<lparr>location = Some (lat, lon), port = Closed, attempts = 0 + 1,
                    terminal = Fixed\<rparr>"
    using fix_validation [OF o1 po_def [symmetric] o3 o4 o5,
        where a = "4807038 / 1000" and b = 1131 and rest = "[]"] oq
    by blast
  then have "read_gps_loop (0 + 1) [Line ob] =
      \<lparr>location = Some (481173 / 10000, 691 / 60), port = Closed, attempts = 0 + 1,
       terminal = Fixed\<rparr>"
    unfolding o2 o3' o4' o5' nmea_lat nmea_lon by auto
  with skip have "read_gps_loop 0 [Line zb, Line ob] =
      \<lparr>location = Some (481173 / 10000, 691 / 60), port = Closed, attempts = 1,
       terminal = Fixed\<rparr>"
    by simp
  then show ?thesis unfolding zb_def ob_def zero_def one_def .
qed

text \<open>
  C3, as stated, fails: non-empty fields are not enough. The sentence below has
  fix quality \<open>"1"\<close> and four non-empty coordinate and direction fields, but its latitude
  \<open>abc\<close> is not a number: \<open>float\<close> raises, the inner handler catches the error, and the
  acquisition, with nothing else on the line, times out after 50 attempts without a fix.
\<close>

theorem nonempty_fields_without_fix:
  "str_split CHR '','' ''$GPGGA,123519,abc,N,01131.000,E,1,08'' =
     [''$GPGGA'', ''123519'', ''abc'', ''N'', ''01131.000'', ''E'', ''1'', ''08'']
   \<and> read_gps \<lparr>opens = True, feed = [Line ''$GPGGA,123519,abc,N,01131.000,E,1,08'']\<rparr> =
       \<lparr>location = None, port = Closed, attempts = 50, terminal = TimedOut\<rparr>"
proof -
  define line where "line = ''$GPGGA,123519,abc,N,01131.000,E,1,08''"
  have parts: "str_split CHR '','' line =
     [''$GPGGA'', ''123519'', ''abc'', ''N'', ''01131.000'', ''E'', ''1'', ''08'']"
    by (simp add: line_def)
  have clean: "strip (decode_ascii_ignore line) = line"
    by (simp add: line_defs line_def)
  have bad: "py_float ''abc'' = None"
    by (simp add: literal_defs)
  have start: "startswith line ''$GPGGA''"
    by (simp add: startswith_def line_def)
  have "poll_line line = Inr None"
    by (simp add: poll_line_def start parts fix_of_parts_def py_int_zero_one
        parse_nmea_coordinate_eq bad)
  then have "read_gps_loop 0 [Line line] = read_gps_loop (0 + 1) []"
    by (intro read_gps_loop_skip) (simp_all add: clean max_attempts_def)
  also have "\<dots> = \<lparr>location = None, port = Closed, attempts = max_attempts, terminal = TimedOut\<rparr>"
    by (rule read_gps_loop_silent) (simp add: max_attempts_def)
  finally have "read_gps \<lparr>opens = True, feed = [Line line]\<rparr> =
      \<lparr>location = None, port = Closed, attempts = 50, terminal = TimedOut\<rparr>"
    by (simp add: read_gps_def max_attempts_def)
  with parts show ?thesis unfolding line_def by (rule conjI)
qed

text \<open>
  A coordinate field that is not a finite number raises ValueError inside the inner
  \<open>try\<close>, from \<open>float\<close> or from \<open>int\<close>: the handler catches it, the line is skipped and
  polling goes on. So it is for a literal that overflows, such as \<open>1e309\<close>.
\<close>

lemma malformed_coordinates_are_skipped:
  assumes "startswith line ''$GPGGA'' \<or> startswith line ''$GNGGA''"
    and "str_split CHR '','' line = parts" and "7 \<le> length parts"
    and "py_int (parts ! 6) = Some q"
    and "py_float (parts ! 2) = None \<or> py_float (parts ! 4) = None"
    and "strip (decode_ascii_ignore bytes) = line" and "n < max_attempts"
  shows "read_gps_loop n (Line bytes # rest) = read_gps_loop (n + 1) rest"
proof -
  have "fix_of_parts parts = Inr None"
    using assms(5)
    by (auto simp: fix_of_parts_def Let_def parse_nmea_coordinate_eq
        split: option.splits sum.splits)
  then have "poll_line line = Inr None"
    using assms(1-4) by (simp add: poll_line_def Let_def)
  then show ?thesis
    using assms(6,7) by (intro read_gps_loop_skip) simp_all
qed

lemma overflowing_coordinate_is_skipped:
  "read_gps \<lparr>opens = True, feed = [Line ''$GPGGA,123519,1e309,N,01131.000,E,1,08'']\<rparr> =
     \<lparr>location = None, port = Closed, attempts = 50, terminal = TimedOut\<rparr>"
proof -
  define line where "line = ''$GPGGA,123519,1e309,N,01131.000,E,1,08''"
  have parts: "str_split CHR '','' line =
     [''$GPGGA'', ''123519'', ''1e309'', ''N'', ''01131.000'', ''E'', ''1'', ''08'']"
    by (simp add: line_def)
  have clean: "strip (decode_ascii_ignore line) = line"
    by (simp add: line_defs line_def)
  have start: "startswith line ''$GPGGA'' \<or> startswith line ''$GNGGA''"
    by (simp add: startswith_def line_def)
  have overflow: "py_float ''1e309'' = None"
    by (simp add: literal_defs)
  have "read_gps_loop 0 (Line line # []) = read_gps_loop (0 + 1) []"
    by (rule malformed_coordinates_are_skipped [OF start parts _ _ _ clean, where q = 1])
      (simp_all add: py_int_zero_one overflow max_attempts_def)
  also have "\<dots> = \<lparr>location = None, port = Closed, attempts = max_attempts, terminal = TimedOut\<rparr>"
    by (rule read_gps_loop_silent) (simp add: max_attempts_def)
  finally show ?thesis
    unfolding line_def by (simp add: read_gps_def max_attempts_def)
qed

text \<open>
  C7. A fix-quality field that is present but not an integer does not skip the line: the
  conversion \<open>int(parts[6])\<close> stands outside the inner \<open>try\<close>, its ValueError reaches the
  outer handler, and \<open>read_gps\<close> returns \<open>None\<close> at once, at attempt 0, although the next
  line, read alone, gives a fix.
\<close>

theorem bad_quality_ends_acquisition:
  "read_gps \<lparr>opens = True,
             feed = [Line ''$GPGGA,123519,4807.038,N,01131.000,E,x,08'',
                     Line ''$GPGGA,123519,4807.038,N,01131.000,E,1,08'']\<rparr> =
     \<lparr>location = None, port = Opened, attempts = 0, terminal = UnexpectedFailure\<rparr>
   \<and> read_gps \<lparr>opens = True,
               feed = [Line ''$GPGGA,123519,4807.038,N,01131.000,E,1,08'']\<rparr> =
     \<lparr>location = Some (481173 / 10000, 691 / 60), port = Closed, attempts = 0,
      terminal = Fixed\<rparr>"
proof -
  define bad where "bad = ''$GPGGA,123519,4807.038,N,01131.000,E,x,08''"
  define good where "good = ''$GPGGA,123519,4807.038,N,01131.000,E,1,08''"
  have clean: "strip (decode_ascii_ignore bad) = bad" "strip (decode_ascii_ignore good) = good"
    by (simp_all add: line_defs bad_def good_def)
  have start: "startswith bad ''$GPGGA''" "startswith good ''$GPGGA''"
    by (simp_all add: startswith_def bad_def good_def)
  have parts: "str_split CHR '','' bad =
       [''$GPGGA'', ''123519'', ''4807.038'', ''N'', ''01131.000'', ''E'', ''x'', ''08'']"
    "str_split CHR '','' good =
       [''$GPGGA'', ''123519'', ''4807.038'', ''N'', ''01131.000'', ''E'', ''1'', ''08'']"
    by (simp_all add: bad_def good_def)
  have x: "py_int ''x'' = None"
    by (simp add: literal_defs)
  have "poll_line bad = Inl ValueError"
    by (simp add: poll_line_def start parts x)
  then have a: "read_gps_loop 0 [Line bad, Line good] =
      \<lparr>location = None, port = Opened, attempts = 0, terminal = UnexpectedFailure\<rparr>"
    by (intro read_gps_loop_raise) (simp_all add: clean max_attempts_def)
  have "poll_line good = Inr (Some (481173 / 10000, 691 / 60))"
    by (simp add: poll_line_def start parts fix_of_parts_def py_int_zero_one nmea_lat nmea_lon)
  then have b: "read_gps_loop 0 [Line good] =
      \<lparr>location = Some (481173 / 10000, 691 / 60), port = Closed, attempts = 0,
       terminal = Fixed\<rparr>"
    by (intro read_gps_loop_fix) (simp_all add: clean max_attempts_def)
  from a b show ?thesis unfolding bad_def good_def by (simp add: read_gps_def)
qed

text \<open>
  C8. The port is closed where \<open>read_gps\<close> returns a fix and where it times out, but not
  where an exception ends it: after a read error, and after a fix-quality field that is
  not an integer, \<open>read_gps\<close> returns with the port still open.
\<close>

theorem port_left_open_on_error:
  "read_gps \<lparr>opens = True, feed = [ReadError]\<rparr> =
     \<lparr>location = None, port = Opened, attempts = 0, terminal = SerialFailure\<rparr>
   \<and> read_gps \<lparr>opens = True, feed = [Line ''$GNGGA,,,,,,1O'']\<rparr> =
     \<lparr>location = None, port = Opened, attempts = 0, terminal = UnexpectedFailure\<rparr>"
proof -
  define line where "line = ''$GNGGA,,,,,,1O''"
  have clean: "strip (decode_ascii_ignore line) = line"
    by (simp add: line_defs line_def)
  have start: "startswith line ''$GNGGA''" "\<not> startswith line ''$GPGGA''"
    by (simp_all add: startswith_def line_def)
  have parts: "str_split CHR '','' line = [''$GNGGA'', [], [], [], [], [], ''1O'']"
    by (simp add: line_def)
  have q: "py_int ''1O'' = None"
    by (simp add: literal_defs)
  have "poll_line line = Inl ValueError"
    by (simp add: poll_line_def start parts q)
  then have a: "read_gps_loop 0 [Line line] =
      \<lparr>location = None, port = Opened, attempts = 0, terminal = UnexpectedFailure\<rparr>"
    by (intro read_gps_loop_raise) (simp_all add: clean max_attempts_def)
  have b: "read_gps_loop 0 [ReadError] =
      \<lparr>location = None, port = Opened, attempts = 0, terminal = SerialFailure\<rparr>"
    by (rule read_gps_loop_read_error) (simp add: max_attempts_def)
  from a b show ?thesis unfolding line_def by (simp add: read_gps_def)
qed

subsection \<open>Detection records\<close>

lemma sum_dict_set:
  "sum_list (dict_values (dict_set d k v)) = sum_list (dict_values d) - dict_get d k 0 + v"
  by (induction d) (auto simp: dict_values_def dict_get_def)

lemma sum_dict_increment:
  "sum_list (dict_values (dict_set d k (dict_get d k 0 + 1))) = sum_list (dict_values d) + 1"
  by (simp add: sum_dict_set)

lemma count_classes_sum:
  "count_classes predictions cids tally = Inr counted \<Longrightarrow>
   sum_list (dict_values counted) = sum_list (dict_values tally) + int (length cids)"
proof (induction cids arbitrary: tally)
  case Nil
  then show ?case by simp
next
  case (Cons cid rest)
  show ?case
  proof (cases predictions)
    case Nil
    with Cons.prems show ?thesis by simp
  next
    case (Cons first others)
    define name where "name = (case class_name first of Some n \<Rightarrow> n
        | None \<Rightarrow> ''class_'' @ str_int cid)"
    from Cons.prems Cons have "count_classes predictions rest
        (dict_set tally name (dict_get tally name 0 + 1)) = Inr counted"
      by (simp add: name_def Let_def)
    then have "sum_list (dict_values counted) =
        sum_list (dict_values (dict_set tally name (dict_get tally name 0 + 1)))
          + int (length rest)"
      by (rule Cons.IH)
    then show ?thesis by (simp add: sum_dict_increment)
  qed
qed

text \<open>
  C2. Every record that \<open>process_single_image\<close> produces has \<open>total_detections\<close> equal to
  the sum of the values of \<open>detection_counts\<close>, whatever list of predictions the inference
  collaborator returns, the empty list included.
\<close>

theorem total_is_sum_of_counts:
  assumes "process_single_image img now = Some r"
  shows "total_detections r = sum_list (dict_values (detection_counts r))"
proof -
  have empty: "sum_list (dict_values []) = 0"
    by (simp add: dict_values_def)
  show ?thesis
    using assms
    by (auto simp: process_single_image_def Let_def empty dest!: count_classes_sum
        split: option.splits if_splits sum.splits prod.splits)
qed

lemma str_int_small: "str_int 0 = ''0''" "str_int 3 = ''3''" "str_int 12 = ''12''"
  by (simp_all add: str_int_def str_nat.simps)

theorem total_is_sum_of_counts_witness:
  "process_single_image
     \<lparr>path = ''a.jpg'',
      exif = Some \<lparr>GPSLatitude = Some [(48, 1), (7, 1), (2280, 1000)],
                    GPSLongitude = Some [(11, 1), (31, 1), (0, 1)],
                    GPSLatitudeRef = Some ''N'', GPSLongitudeRef = Some ''E''\<rparr>,
      decodes = True,
      inference = Inr [\<lparr>class_id = 0, class_name = None\<rparr>,
                       \<lparr>class_id = 3, class_name = None\<rparr>,
                       \<lparr>class_id = 0, class_name = None\<rparr>]\<rparr> ''2024-05-01T10:00:00'' =
     Some \<lparr>image_path = ''a.jpg'', latitude = 481173 / 10000, longitude = 691 / 60,
           total_detections = 3, detection_counts = [(''class_0'', 2), (''class_3'', 1)],
           timestamp = ''2024-05-01T10:00:00''\<rparr>
   \<and> total_detections
         \<lparr>image_path = ''a.jpg'', latitude = 481173 / 10000, longitude = 691 / 60,
          total_detections = 3, detection_counts = [(''class_0'', 2), (''class_3'', 1)],
          timestamp = ''2024-05-01T10:00:00''\<rparr> =
       sum_list (dict_values
         (detection_counts
            \<lparr>image_path = ''a.jpg'', latitude = 481173 / 10000, longitude = 691 / 60,
             total_detections = 3, detection_counts = [(''class_0'', 2), (''class_3'', 1)],
             timestamp = ''2024-05-01T10:00:00''\<rparr>))"
proof -
  have h: "process_single_image
     \<lparr>path = ''a.jpg'',
      exif = Some \<lparr>GPSLatitude = Some [(48, 1), (7, 1), (2280, 1000)],
                    GPSLongitude = Some [(11, 1), (31, 1), (0, 1)],
                    GPSLatitudeRef = Some ''N'', GPSLongitudeRef = Some ''E''\<rparr>,
      decodes = True,
      inference = Inr [\<lparr>class_id = 0, class_name = None\<rparr>,
                       \<lparr>class_id = 3, class_name = None\<rparr>,
                       \<lparr>class_id = 0, class_name = None\<rparr>]\<rparr> ''2024-05-01T10:00:00'' =
     Some \<lparr>image_path = ''a.jpg'', latitude = 481173 / 10000, longitude = 691 / 60,
           total_detections = 3, detection_counts = [(''class_0'', 2), (''class_3'', 1)],
           timestamp = ''2024-05-01T10:00:00''\<rparr>"
    by (simp add: process_single_image_def read_gps_from_image_def tag_str_def
        dms_to_decimal_def index_def float_of_ratio_def str_int_small dict_get_def)
  from total_is_sum_of_counts [OF h] h show ?thesis by (rule conjI [rotated])
qed

subsection \<open>Heat data\<close>

lemma basic_heat_data_map:
  "basic_heat_data ds acc =
     acc @ map (\<lambda>item. (latitude item, longitude item, max 1 (total_detections item))) ds"
  by (induction ds arbitrary: acc) (simp_all add: Let_def)

lemma class_heat_data_filter:
  "c \<noteq> [] \<Longrightarrow>
   class_heat_data (Some c) ds acc =
     acc @ map (\<lambda>item. (latitude item, longitude item, dict_get (detection_counts item) c 0))
             (filter (\<lambda>item. 0 < dict_get (detection_counts item) c 0) ds)"
  by (induction ds arbitrary: acc) (simp_all add: Let_def)

text \<open>
  C6. For a non-empty record collection, the heat data of the basic heatmap has one point
  per record, in order, with intensity \<open>max(1, total_detections)\<close>, hence at least 1; the
  heat data of the heatmap for a target class (a non-empty class name) has exactly the
  records whose count for that class is above 0, in order, with that count as intensity.
\<close>

theorem heat_data_contents:
  assumes "detection_data \<noteq> []"
  shows "(\<exists>m. create_basic_heatmap detection_data = Some m
            \<and> heat_layer m =
                map (\<lambda>item. (latitude item, longitude item, max 1 (total_detections item)))
                  detection_data
            \<and> length (heat_layer m) = length detection_data
            \<and> (\<forall>p \<in> set (heat_layer m). 1 \<le> snd (snd p)))
       \<and> (c \<noteq> [] \<longrightarrow>
            (\<exists>m. create_class_specific_heatmap detection_data (Some c) = Some m
               \<and> heat_layer m =
                   map (\<lambda>item. (latitude item, longitude item,
                                 dict_get (detection_counts item) c 0))
                     (filter (\<lambda>item. 0 < dict_get (detection_counts item) c 0)
                        detection_data)))"
proof (intro conjI impI)
  show "\<exists>m. create_basic_heatmap detection_data = Some m
            \<and> heat_layer m =
                map (\<lambda>item. (latitude item, longitude item, max 1 (total_detections item)))
                  detection_data
            \<and> length (heat_layer m) = length detection_data
            \<and> (\<forall>p \<in> set (heat_layer m). 1 \<le> snd (snd p))"
    using assms by (auto simp: create_basic_heatmap_def basic_heat_data_map)
next
  assume "c \<noteq> []"
  then show "\<exists>m. create_class_specific_heatmap detection_data (Some c) = Some m
               \<and> heat_layer m =
                   map (\<lambda>item. (latitude item, longitude item,
                                 dict_get (detection_counts item) c 0))
                     (filter (\<lambda>item. 0 < dict_get (detection_counts item) c 0)
                        detection_data)"
    using assms by (simp add: create_class_specific_heatmap_def class_heat_data_filter)
qed

theorem heat_data_contents_witness:
  "(\<exists>m. create_basic_heatmap
           [\<lparr>image_path = ''a.jpg'', latitude = 48, longitude = 11, total_detections = 2,
             detection_counts = [(''coffee'', 2)], timestamp = ''t1''\<rparr>,
            \<lparr>image_path = ''b.jpg'', latitude = 49, longitude = 12, total_detections = 0,
             detection_counts = [], timestamp = ''t2''\<rparr>] = Some m
        \<and> heat_layer m = [(48, 11, 2), (49, 12, 1)])
   \<and> (\<exists>m. create_class_specific_heatmap
           [\<lparr>image_path = ''a.jpg'', latitude = 48, longitude = 11, total_detections = 2,
             detection_counts = [(''coffee'', 2)], timestamp = ''t1''\<rparr>,
            \<lparr>image_path = ''b.jpg'', latitude = 49, longitude = 12, total_detections = 0,
             detection_counts = [], timestamp = ''t2''\<rparr>] (Some ''coffee'') = Some m
        \<and> heat_layer m = [(48, 11, 2)])"
proof -
  let ?data = "[\<lparr>image_path = ''a.jpg'', latitude = 48, longitude = 11, total_detections = 2,
             detection_counts = [(''coffee'', 2)], timestamp = ''t1''\<rparr>,
            \<lparr>image_path = ''b.jpg'', latitude = 49, longitude = 12, total_detections = 0,
             detection_counts = [], timestamp = ''t2''\<rparr>]"
  have h: "?data \<noteq> []" by simp
  have c: "''coffee'' \<noteq> []" by simp
  from heat_data_contents [OF h, of "''coffee''"] c show ?thesis
    by (auto simp add: dict_get_def)
qed

end
